theory Spec2Isabelle
  imports Main
begin

section \<open>The LDAP connector of dex (connector/ldap/ldap.go)\<close>

text \<open>
  A shallow embedding of \<^verbatim>\<open>src/connector/ldap/ldap.go\<close>. Go strings and byte slices are
  \<open>string\<close> (a list of bytes); a nil slice and an empty slice are both the empty list.
  A Go function that talks to the directory takes the trace of client calls made so far
  and returns it extended. Calls to \<^verbatim>\<open>log.Printf\<close> and the unused \<^verbatim>\<open>ctx\<close> argument are left
  out.
\<close>

subsection \<open>Data of the directory client (gopkg.in/ldap.v2)\<close>

type_synonym bytes = string

text \<open>
  \<^verbatim>\<open>ldap.EntryAttribute\<close> and \<^verbatim>\<open>ldap.Entry\<close>, with the fields the connector reads. The
  client library returns entries whose attribute pointers are never nil, so the
  attributes are a list of records.
\<close>

record EntryAttribute =
  Name :: string
  Values :: "string list"

record Entry =
  DN :: string
  Attributes :: "EntryAttribute list"

text \<open>The zero value \<^verbatim>\<open>ldap.Entry{}\<close>.\<close>

definition emptyEntry :: Entry where
  "emptyEntry = \<lparr>DN = '''', Attributes = []\<rparr>"

subsection \<open>EntryAttributeReader\<close>

text \<open>
  \<^verbatim>\<open>getAttr\<close>, lines 253-267. The loop stops at the first attribute whose name is the one
  asked for; an attribute with no value gives the empty string.
\<close>

fun getAttrLoop :: "EntryAttribute list \<Rightarrow> string \<Rightarrow> string option" where
  "getAttrLoop [] name = None"
| "getAttrLoop (a # as) name =
     (if Name a \<noteq> name then getAttrLoop as name
      else if length (Values a) = 0 then Some ''''
      else Some (Values a ! 0))"

definition getAttr :: "Entry \<Rightarrow> string \<Rightarrow> string" where
  "getAttr e name =
     (case getAttrLoop (Attributes e) name of
        Some v \<Rightarrow> v
      | None \<Rightarrow> if name = ''DN'' then DN e else '''')"

subsection \<open>Configuration\<close>

text \<open>
  \<^verbatim>\<open>Config\<close>, lines 53-123. The two anonymous structs \<^verbatim>\<open>UserSearch\<close> and \<^verbatim>\<open>GroupSearch\<close>
  are records of their own; their fields carry the prefixes \<open>us_\<close> and \<open>gs_\<close>.
\<close>

record UserSearchConfig =
  us_BaseDN :: string
  us_Filter :: string
  us_Username :: string
  us_Scope :: string
  us_IDAttr :: string
  us_EmailAttr :: string
  us_NameAttr :: string

record GroupSearchConfig =
  gs_BaseDN :: string
  gs_Filter :: string
  gs_Scope :: string
  gs_UserAttr :: string
  gs_GroupAttr :: string
  gs_NameAttr :: string

record Config =
  Host :: string
  InsecureNoSSL :: bool
  InsecureSkipVerify :: bool
  RootCA :: string
  RootCAData :: bytes
  BindDN :: string
  BindPW :: string
  UserSearch :: UserSearchConfig
  GroupSearch :: GroupSearchConfig

text \<open>
  \<^verbatim>\<open>tls.Config\<close> with the three fields \<^verbatim>\<open>OpenConnector\<close> sets. A certificate pool is
  the PEM data it was filled from; \<open>None\<close> is the nil pool.
\<close>

record tlsConfig =
  ServerName :: string
  tls_InsecureSkipVerify :: bool
  RootCAs :: "bytes option"

text \<open>\<^verbatim>\<open>ldapConnector\<close>, lines 212-219; \<open>cfg\<close> is the embedded \<^verbatim>\<open>Config\<close>.\<close>

record ldapConnector =
  cfg :: Config
  userSearchScope :: int
  groupSearchScope :: int
  tlsConfig :: tlsConfig

subsection \<open>Errors\<close>

text \<open>
  An error value of a library: \<^verbatim>\<open>*ldap.Error\<close> with its result code and message, or any
  other error (network, file system, JSON).
\<close>

datatype lib_error = LdapError nat string | OtherError string

text \<open>
  The errors the connector builds with \<^verbatim>\<open>fmt.Errorf\<close>, one constructor for each format
  string, carrying the values the message is formatted from.
\<close>

datatype error =
    MissingRequiredField string
      \<comment> \<open>\<^verbatim>\<open>ldap: missing required field %q\<close>\<close>
  | ReadCAFile lib_error
      \<comment> \<open>\<^verbatim>\<open>ldap: read ca file: %v\<close>\<close>
  | NoCertsFound
      \<comment> \<open>\<^verbatim>\<open>ldap: no certs found in ca file\<close>\<close>
  | ScopeUnknownValue string
      \<comment> \<open>\<^verbatim>\<open>userSearch.Scope unknown value %q\<close>, the text of both scope checks\<close>
  | FailedToConnect lib_error
      \<comment> \<open>\<^verbatim>\<open>failed to connect: %v\<close>\<close>
  | InitialBindFailed string lib_error
      \<comment> \<open>\<^verbatim>\<open>ldap: initial bind for user %q failed: %v\<close>\<close>
  | SearchFailed string lib_error
      \<comment> \<open>\<^verbatim>\<open>ldap: search with filter %q failed: %v\<close>\<close>
  | MultipleResults nat string
      \<comment> \<open>\<^verbatim>\<open>ldap: filter returned multiple (%d) results: %q\<close>\<close>
  | FailedToBindAsDN string lib_error
      \<comment> \<open>\<^verbatim>\<open>ldap: failed to bind as dn %q: %v\<close>\<close>
  | MissingAttributes string "string list"
      \<comment> \<open>\<^verbatim>\<open>ldap: entry %q missing following required attribute(s): %q\<close>\<close>
  | FailedToQueryGroups error
      \<comment> \<open>\<^verbatim>\<open>ldap: failed to query groups: %v\<close>\<close>
  | MarshalEntry lib_error
      \<comment> \<open>\<^verbatim>\<open>ldap: marshal entry: %v\<close>\<close>
  | FailedToUnmarshal lib_error
      \<comment> \<open>\<^verbatim>\<open>ldap: failed to unamrshal internal data: %v\<close>\<close>
  | UserNotFound string
      \<comment> \<open>\<^verbatim>\<open>ldap: user not found %q\<close>\<close>
  | RefreshDNMismatch string string string
      \<comment> \<open>\<^verbatim>\<open>ldap: refresh for username %q expected DN %q got %q\<close>\<close>
  | GroupSearchFailed lib_error
      \<comment> \<open>\<^verbatim>\<open>ldap: search failed: %v\<close>\<close>
  | GroupMissingAttribute string string
      \<comment> \<open>\<^verbatim>\<open>ldap: group entity %q missing required attribute %q\<close>\<close>

subsection \<open>ScopeResolver\<close>

text \<open>
  Modelled from the spec: the constants \<^verbatim>\<open>ldap.ScopeSingleLevel\<close>, \<^verbatim>\<open>ldap.ScopeWholeSubtree\<close>
  and \<^verbatim>\<open>ldap.LDAPResultInvalidCredentials\<close> belong to the client library, which is not
  among the sources. They are the protocol's enumerated scope values for "single level"
  and "whole subtree" and its result code for "invalid credentials".
\<close>

definition ScopeSingleLevel :: int where
  "ScopeSingleLevel = 1"

definition ScopeWholeSubtree :: int where
  "ScopeWholeSubtree = 2"

definition LDAPResultInvalidCredentials :: nat where
  "LDAPResultInvalidCredentials = 49"

text \<open>\<^verbatim>\<open>parseScope\<close>, lines 125-135.\<close>

definition parseScope :: "string \<Rightarrow> int \<times> bool" where
  "parseScope s =
     (if s = [] \<or> s = ''sub'' then (ScopeWholeSubtree, True)
      else if s = ''one'' then (ScopeSingleLevel, True)
      else (0, False))"

subsection \<open>Host-facing data (package connector)\<close>

text \<open>
  Modelled from the spec: the type declarations \<^verbatim>\<open>connector.Identity\<close> and
  \<^verbatim>\<open>connector.Scopes\<close> are not among the sources. An identity is a user identifier, an
  email, an optional display name, an optional list of group names and an optional
  opaque connector state; a scope request carries two booleans, whether long-lived
  access is requested and whether group memberships are wanted. The fields are the ones
  \<^verbatim>\<open>ldap.go\<close> reads and writes.
\<close>

record Identity =
  UserID :: string
  Username :: string
  Email :: string
  Groups :: "string list"
  ConnectorData :: bytes

record Scopes =
  sc_OfflineAccess :: bool
  sc_Groups :: bool

text \<open>The zero value \<^verbatim>\<open>connector.Identity{}\<close>.\<close>

definition emptyIdentity :: Identity where
  "emptyIdentity = \<lparr>UserID = [], Username = [], Email = [], Groups = [], ConnectorData = []\<rparr>"

text \<open>\<^verbatim>\<open>refreshData\<close>, lines 146-149.\<close>

record refreshData =
  rd_Username :: string
  rd_Entry :: Entry

subsection \<open>The directory and the libraries\<close>

text \<open>
  \<^verbatim>\<open>ldap.SearchRequest\<close> with the four fields the connector sets; the others keep their
  zero values.
\<close>

record SearchRequest =
  req_BaseDN :: string
  req_Filter :: string
  req_Scope :: int
  req_Attributes :: "string list"

text \<open>
  The calls the connector makes on the directory client. A connection is named by a
  number: the length of the trace when it was dialled.
\<close>

datatype call =
    Dial string
  | DialTLS string tlsConfig
  | Bind nat string string
  | Search nat SearchRequest
  | Close nat

text \<open>
  The directory answers a call as a function of the whole trace up to and including
  that call, so that an answer may depend on everything that happened before (who is
  bound on the connection, what was searched). \<open>None\<close> is a nil error.
\<close>

record directory =
  dial_result :: "call list \<Rightarrow> lib_error option"
  bind_result :: "call list \<Rightarrow> lib_error option"
  search_result :: "call list \<Rightarrow> lib_error + Entry list"

text \<open>
  The functions of other packages the connector calls, as parameters:
  \<^verbatim>\<open>ldap.EscapeFilter\<close>, \<^verbatim>\<open>json.Marshal\<close> and \<^verbatim>\<open>json.Unmarshal\<close> at type \<^verbatim>\<open>refreshData\<close>,
  \<^verbatim>\<open>net.SplitHostPort\<close>, \<^verbatim>\<open>ioutil.ReadFile\<close> and \<^verbatim>\<open>AppendCertsFromPEM\<close> on a new pool.
\<close>

record library =
  escapeFilter :: "string \<Rightarrow> string"
  jsonMarshal :: "refreshData \<Rightarrow> lib_error + bytes"
  jsonUnmarshal :: "bytes \<Rightarrow> lib_error + refreshData"
  splitHostPort :: "string \<Rightarrow> lib_error + string \<times> string"
  readFile :: "string \<Rightarrow> lib_error + bytes"
  appendCertsFromPEM :: "bytes \<Rightarrow> bool"

subsection \<open>Filter value escaping\<close>

text \<open>
  Modelled from the spec: \<^verbatim>\<open>ldap.EscapeFilter\<close> belongs to the client library, which is not
  among the sources. The spec asks that values be "escaped per directory filter
  syntax": in the textual filter grammar the bytes \<^verbatim>\<open>(\<close>, \<^verbatim>\<open>)\<close>, \<^verbatim>\<open>*\<close>, the backslash and NUL
  cannot stand for themselves in a value and are written as a backslash and two
  hexadecimal digits; bytes above \<^verbatim>\<open>0x7f\<close> are written the same way. Every other byte
  stands for itself.
\<close>

definition hexDigit :: "nat \<Rightarrow> char" where
  "hexDigit n = ''0123456789abcdef'' ! n"

definition mustEscape :: "char \<Rightarrow> bool" where
  "mustEscape c \<longleftrightarrow>
     (of_char c :: nat) > 0x7f \<or> c = CHR ''('' \<or> c = CHR '')'' \<or> c = CHR 0x5C \<or>
     c = CHR ''*'' \<or> c = CHR 0x00"

fun EscapeFilter :: "string \<Rightarrow> string" where
  "EscapeFilter [] = []"
| "EscapeFilter (c # s) =
     (if mustEscape c
      then CHR 0x5C # hexDigit (of_char c div 16) # hexDigit (of_char c mod 16) # EscapeFilter s
      else c # EscapeFilter s)"

text \<open>
  Modelled from the spec: how the filter grammar reads a value back, which is the
  directory's side of "escaped per directory filter syntax". A backslash must be
  followed by two hexadecimal digits and stands for the byte they name; a bare \<^verbatim>\<open>(\<close>,
  \<^verbatim>\<open>)\<close>, \<^verbatim>\<open>*\<close> or NUL is not part of a value (\<open>None\<close>); any other byte is literal.
\<close>

definition hexValue :: "char \<Rightarrow> nat option" where
  "hexValue c =
     (let n = (of_char c :: nat) in
      if 48 \<le> n \<and> n \<le> 57 then Some (n - 48)
      else if 97 \<le> n \<and> n \<le> 102 then Some (n - 87)
      else if 65 \<le> n \<and> n \<le> 70 then Some (n - 55)
      else None)"

fun unescapeValue :: "string \<Rightarrow> string option" where
  "unescapeValue [] = Some []"
| "unescapeValue (c # s) =
     (if c = CHR 0x5C then
        (case s of
           h1 # h2 # rest \<Rightarrow>
             (case (hexValue h1, hexValue h2) of
                (Some a, Some b) \<Rightarrow> map_option ((#) (char_of (16 * a + b))) (unescapeValue rest)
              | _ \<Rightarrow> None)
         | _ \<Rightarrow> None)
      else if c = CHR ''('' \<or> c = CHR '')'' \<or> c = CHR ''*'' \<or> c = CHR 0x00 then None
      else map_option ((#) c) (unescapeValue s))"

subsection \<open>Connector construction\<close>

text \<open>
  The errors the spec's taxonomy calls configuration errors: a missing mandatory field,
  unreadable or unparseable trust material, an invalid scope string.
\<close>

fun isConfigurationError :: "error \<Rightarrow> bool" where
  "isConfigurationError (MissingRequiredField name) = True"
| "isConfigurationError (ReadCAFile err) = True"
| "isConfigurationError NoCertsFound = True"
| "isConfigurationError (ScopeUnknownValue s) = True"
| "isConfigurationError other = False"


text \<open>The loop over \<^verbatim>\<open>requiredFields\<close>, lines 167-171.\<close>

fun checkRequiredFields :: "(string \<times> string) list \<Rightarrow> error option" where
  "checkRequiredFields [] = None"
| "checkRequiredFields ((name, val) # rest) =
     (if val = [] then Some (MissingRequiredField name) else checkRequiredFields rest)"

text \<open>
  Lines 186-200: the TLS configuration, or the error of reading or parsing the trust
  material.
\<close>

definition buildTLSConfig :: "library \<Rightarrow> Config \<Rightarrow> string \<Rightarrow> error + tlsConfig" where
  "buildTLSConfig lib c host =
     (let tlsConfig0 =
            \<lparr>ServerName = host, tls_InsecureSkipVerify = InsecureSkipVerify c, RootCAs = None\<rparr>
      in if RootCA c \<noteq> [] \<or> length (RootCAData c) \<noteq> 0 then
           (case (if length (RootCAData c) = 0 then readFile lib (RootCA c)
                  else Inr (RootCAData c)) of
              Inl err \<Rightarrow> Inl (ReadCAFile err)
            | Inr data \<Rightarrow>
                if \<not> appendCertsFromPEM lib data then Inl NoCertsFound
                else Inr (tlsConfig0\<lparr>RootCAs := Some data\<rparr>))
         else Inr tlsConfig0)"

text \<open>
  \<^verbatim>\<open>OpenConnector\<close>, lines 152-210. The method writes the default port into \<^verbatim>\<open>c.Host\<close>
  before it copies \<^verbatim>\<open>*c\<close> into the connector; \<open>c1\<close> is the configuration after that write.
  The function takes no directory and no trace: it makes no call on the directory
  client.
\<close>

definition OpenConnector :: "library \<Rightarrow> Config \<Rightarrow> error + ldapConnector" where
  "OpenConnector lib c =
     (case checkRequiredFields
             [(''host'', Host c),
              (''userSearch.baseDN'', us_BaseDN (UserSearch c)),
              (''userSearch.username'', us_Username (UserSearch c))] of
        Some err \<Rightarrow> Inl err
      | None \<Rightarrow>
          (let (host, c1) =
                 (case splitHostPort lib (Host c) of
                    Inr (h, port) \<Rightarrow> (h, c)
                  | Inl err \<Rightarrow>
                      (Host c,
                       if InsecureNoSSL c then c\<lparr>Host := Host c @ '':389''\<rparr>
                       else c\<lparr>Host := Host c @ '':636''\<rparr>))
           in case buildTLSConfig lib c1 host of
                Inl err \<Rightarrow> Inl err
              | Inr tlsConfig1 \<Rightarrow>
                  (case parseScope (us_Scope (UserSearch c1)) of
                     (userSearchScope1, ok) \<Rightarrow>
                       if \<not> ok then Inl (ScopeUnknownValue (us_Scope (UserSearch c1)))
                       else
                         (case parseScope (gs_Scope (GroupSearch c1)) of
                            (groupSearchScope1, ok) \<Rightarrow>
                              if \<not> ok then Inl (ScopeUnknownValue (gs_Scope (GroupSearch c1)))
                              else Inr \<lparr>cfg = c1, userSearchScope = userSearchScope1,
                                         groupSearchScope = groupSearchScope1,
                                         tlsConfig = tlsConfig1\<rparr>))))"

text \<open>\<^verbatim>\<open>Open\<close>, lines 138-144: the connector of \<^verbatim>\<open>OpenConnector\<close> or its error.\<close>

definition Open :: "library \<Rightarrow> Config \<Rightarrow> error + ldapConnector" where
  "Open lib c = (case OpenConnector lib c of Inl err \<Rightarrow> Inl err | Inr conn \<Rightarrow> Inr conn)"

subsection \<open>DirectorySession\<close>

text \<open>The dial of lines 235-239: plain or TLS, to the configured host.\<close>

definition dialCall :: "ldapConnector \<Rightarrow> call" where
  "dialCall c =
     (if InsecureNoSSL (cfg c) then Dial (Host (cfg c))
      else DialTLS (Host (cfg c)) (tlsConfig c))"

text \<open>
  \<^verbatim>\<open>do\<close>, lines 229-251. The Go closure \<open>f\<close> writes its results into variables of the
  caller; here it returns them beside the trace when it returns a nil error. The
  deferred \<^verbatim>\<open>conn.Close()\<close> runs on every path after a successful dial.
\<close>

definition do ::
  "ldapConnector \<Rightarrow> directory \<Rightarrow> call list \<Rightarrow>
   (nat \<Rightarrow> call list \<Rightarrow> (error + 'a) \<times> call list) \<Rightarrow> (error + 'a) \<times> call list" where
  "do c srv tr f =
     (let conn = length tr; tr1 = tr @ [dialCall c] in
      case dial_result srv tr1 of
        Some err \<Rightarrow> (Inl (FailedToConnect err), tr1)
      | None \<Rightarrow>
          (let tr2 = tr1 @ [Bind conn (BindDN (cfg c)) (BindPW (cfg c))] in
           case bind_result srv tr2 of
             Some err \<Rightarrow> (Inl (InitialBindFailed (BindDN (cfg c)) err), tr2 @ [Close conn])
           | None \<Rightarrow> (case f conn tr2 of (r, tr3) \<Rightarrow> (r, tr3 @ [Close conn]))))"

subsection \<open>IdentityMapper\<close>

text \<open>
  \<^verbatim>\<open>identityFromEntry\<close>, lines 269-292. The zero identity the source returns beside the
  error is dropped: both callers discard it.
\<close>

definition identityFromEntry :: "ldapConnector \<Rightarrow> Entry \<Rightarrow> error + Identity" where
  "identityFromEntry c user =
     (let missing0 = [];
          ident1 = emptyIdentity\<lparr>UserID := getAttr user (us_IDAttr (UserSearch (cfg c)))\<rparr>;
          missing1 = (if UserID ident1 = [] then missing0 @ [us_IDAttr (UserSearch (cfg c))]
                      else missing0);
          ident2 = ident1\<lparr>Email := getAttr user (us_EmailAttr (UserSearch (cfg c)))\<rparr>;
          missing2 = (if Email ident2 = [] then missing1 @ [us_EmailAttr (UserSearch (cfg c))]
                      else missing1);
          ident3 = (if us_NameAttr (UserSearch (cfg c)) \<noteq> []
                    then ident2\<lparr>Username := getAttr user (us_NameAttr (UserSearch (cfg c)))\<rparr>
                    else ident2);
          missing3 = (if us_NameAttr (UserSearch (cfg c)) \<noteq> [] \<and> Username ident3 = []
                      then missing2 @ [us_NameAttr (UserSearch (cfg c))]
                      else missing2)
      in if length missing3 \<noteq> 0 then Inl (MissingAttributes (DN user) missing3)
         else Inr ident3)"

text \<open>
  For the statements about the mapper, in the spec's words: the attributes that are
  configured (id, email, and the name attribute when one is configured), and "the names
  of every attribute that is configured but resolves to empty".
\<close>

definition requiredAttrs :: "ldapConnector \<Rightarrow> string list" where
  "requiredAttrs c =
     [us_IDAttr (UserSearch (cfg c)), us_EmailAttr (UserSearch (cfg c))] @
     (if us_NameAttr (UserSearch (cfg c)) \<noteq> [] then [us_NameAttr (UserSearch (cfg c))] else [])"

definition missingAttrs :: "ldapConnector \<Rightarrow> Entry \<Rightarrow> string list" where
  "missingAttrs c user = filter (\<lambda>a. getAttr user a = []) (requiredAttrs c)"

subsection \<open>FilterBuilder and user lookup\<close>

text \<open>
  The filter of \<^verbatim>\<open>userEntry\<close>, lines 296-299: \<^verbatim>\<open>fmt.Sprintf("(%s=%s)", ...)\<close> and, with a
  base filter, \<^verbatim>\<open>fmt.Sprintf("(&%s%s)", ...)\<close>.
\<close>

definition userFilter :: "library \<Rightarrow> ldapConnector \<Rightarrow> string \<Rightarrow> string" where
  "userFilter lib c username =
     (let filter0 = ''('' @ us_Username (UserSearch (cfg c)) @ ''='' @
                    escapeFilter lib username @ '')''
      in if us_Filter (UserSearch (cfg c)) \<noteq> []
         then ''(&'' @ us_Filter (UserSearch (cfg c)) @ filter0 @ '')''
         else filter0)"

text \<open>The search request of \<^verbatim>\<open>userEntry\<close>, lines 302-317.\<close>

definition userSearchRequest :: "library \<Rightarrow> ldapConnector \<Rightarrow> string \<Rightarrow> SearchRequest" where
  "userSearchRequest lib c username =
     (let req = \<lparr>req_BaseDN = us_BaseDN (UserSearch (cfg c)),
                 req_Filter = userFilter lib c username,
                 req_Scope = userSearchScope c,
                 req_Attributes =
                   [us_IDAttr (UserSearch (cfg c)),
                    us_EmailAttr (UserSearch (cfg c)),
                    gs_UserAttr (GroupSearch (cfg c))]\<rparr>
      in if us_NameAttr (UserSearch (cfg c)) \<noteq> []
         then req\<lparr>req_Attributes := req_Attributes req @ [us_NameAttr (UserSearch (cfg c))]\<rparr>
         else req)"

text \<open>
  \<^verbatim>\<open>userEntry\<close>, lines 294-332: the result is the error, or the entry and whether one was
  found.
\<close>

definition userEntry ::
  "library \<Rightarrow> ldapConnector \<Rightarrow> directory \<Rightarrow> nat \<Rightarrow> call list \<Rightarrow> string \<Rightarrow>
   (error + Entry \<times> bool) \<times> call list" where
  "userEntry lib c srv conn tr username =
     (let req = userSearchRequest lib c username;
          tr1 = tr @ [Search conn req]
      in case search_result srv tr1 of
           Inl err \<Rightarrow> (Inl (SearchFailed (req_Filter req) err), tr1)
         | Inr entries \<Rightarrow>
             (let n = length entries in
              if n = 0 then (Inr (emptyEntry, False), tr1)
              else if n = 1 then (Inr (entries ! 0, True), tr1)
              else (Inl (MultipleResults n (userFilter lib c username)), tr1)))"

subsection \<open>GroupResolver\<close>

text \<open>The filter of \<^verbatim>\<open>groups\<close>, lines 443-446.\<close>

definition groupFilter :: "library \<Rightarrow> ldapConnector \<Rightarrow> Entry \<Rightarrow> string" where
  "groupFilter lib c user =
     (let filter0 = ''('' @ gs_GroupAttr (GroupSearch (cfg c)) @ ''='' @
                    escapeFilter lib (getAttr user (gs_UserAttr (GroupSearch (cfg c)))) @ '')''
      in if gs_Filter (GroupSearch (cfg c)) \<noteq> []
         then ''(&'' @ gs_Filter (GroupSearch (cfg c)) @ filter0 @ '')''
         else filter0)"

text \<open>The search request of \<^verbatim>\<open>groups\<close>, lines 448-453.\<close>

definition groupSearchRequest :: "library \<Rightarrow> ldapConnector \<Rightarrow> Entry \<Rightarrow> SearchRequest" where
  "groupSearchRequest lib c user =
     \<lparr>req_BaseDN = gs_BaseDN (GroupSearch (cfg c)),
      req_Filter = groupFilter lib c user,
      req_Scope = groupSearchScope c,
      req_Attributes = [gs_NameAttr (GroupSearch (cfg c))]\<rparr>"

text \<open>The closure of \<^verbatim>\<open>groups\<close>, lines 456-463; its result is the variable \<^verbatim>\<open>groups\<close>.\<close>

definition groupsClosure ::
  "directory \<Rightarrow> SearchRequest \<Rightarrow> nat \<Rightarrow> call list \<Rightarrow> (error + Entry list) \<times> call list" where
  "groupsClosure srv req conn tr =
     (let tr1 = tr @ [Search conn req] in
      case search_result srv tr1 of
        Inl err \<Rightarrow> (Inl (GroupSearchFailed err), tr1)
      | Inr entries \<Rightarrow> (Inr entries, tr1))"

text \<open>
  The loop of lines 473-485, with \<^verbatim>\<open>groupNames\<close> as the accumulator. The result is the
  pair the source returns: the list and the error.
\<close>

fun groupNamesLoop ::
  "ldapConnector \<Rightarrow> Entry list \<Rightarrow> string list \<Rightarrow> string list \<times> error option" where
  "groupNamesLoop c [] groupNames = (groupNames, None)"
| "groupNamesLoop c (group1 # rest) groupNames =
     (let name = getAttr group1 (gs_NameAttr (GroupSearch (cfg c))) in
      if name = []
      then ([], Some (GroupMissingAttribute (DN group1) (gs_NameAttr (GroupSearch (cfg c)))))
      else groupNamesLoop c rest (groupNames @ [name]))"

text \<open>\<^verbatim>\<open>groups\<close>, lines 442-487.\<close>

definition groups ::
  "library \<Rightarrow> ldapConnector \<Rightarrow> directory \<Rightarrow> call list \<Rightarrow> Entry \<Rightarrow>
   (string list \<times> error option) \<times> call list" where
  "groups lib c srv tr user =
     (case do c srv tr (groupsClosure srv (groupSearchRequest lib c user)) of
        (Inl err, tr1) \<Rightarrow> (([], Some err), tr1)
      | (Inr groups1, tr1) \<Rightarrow> (groupNamesLoop c groups1 [], tr1))"

subsection \<open>Login\<close>

text \<open>
  The closure of \<^verbatim>\<open>Login\<close>, lines 342-366. On a nil error it returns the two variables it
  writes, \<^verbatim>\<open>incorrectPass\<close> and \<^verbatim>\<open>user\<close>; \<^verbatim>\<open>user\<close> keeps its zero value when no entry is
  found. The bind with the user's name and password is made on \<open>conn\<close>, the connection
  \<^verbatim>\<open>do\<close> passes in.
\<close>

definition loginClosure ::
  "library \<Rightarrow> ldapConnector \<Rightarrow> directory \<Rightarrow> string \<Rightarrow> string \<Rightarrow> nat \<Rightarrow> call list \<Rightarrow>
   (error + bool \<times> Entry) \<times> call list" where
  "loginClosure lib c srv username password conn tr =
     (case userEntry lib c srv conn tr username of
        (Inl err, tr1) \<Rightarrow> (Inl err, tr1)
      | (Inr (entry, found), tr1) \<Rightarrow>
          if \<not> found then (Inr (True, emptyEntry), tr1)
          else
            (let user = entry;
                 tr2 = tr1 @ [Bind conn (DN user) password]
             in case bind_result srv tr2 of
                  None \<Rightarrow> (Inr (False, user), tr2)
                | Some (LdapError resultCode msg) \<Rightarrow>
                    if resultCode = LDAPResultInvalidCredentials then (Inr (True, user), tr2)
                    else (Inl (FailedToBindAsDN (DN user) (LdapError resultCode msg)), tr2)
                | Some (OtherError msg) \<Rightarrow>
                    (Inl (FailedToBindAsDN (DN user) (OtherError msg)), tr2)))"

text \<open>Lines 386-398: the refresh state, when offline access is requested.\<close>

definition loginOffline ::
  "library \<Rightarrow> Scopes \<Rightarrow> string \<Rightarrow> Entry \<Rightarrow> Identity \<Rightarrow> Identity \<times> bool \<times> error option" where
  "loginOffline lib s username user ident =
     (if sc_OfflineAccess s then
        (case jsonMarshal lib \<lparr>rd_Username = username, rd_Entry = user\<rparr> of
           Inl err \<Rightarrow> (emptyIdentity, False, Some (MarshalEntry err))
         | Inr data \<Rightarrow> (ident\<lparr>ConnectorData := data\<rparr>, True, None))
      else (ident, True, None))"

text \<open>
  \<^verbatim>\<open>Login\<close>, lines 334-399. The result is the triple the source returns (identity,
  \<^verbatim>\<open>validPass\<close>, error) and the trace.
\<close>

definition Login ::
  "library \<Rightarrow> ldapConnector \<Rightarrow> directory \<Rightarrow> call list \<Rightarrow> Scopes \<Rightarrow> string \<Rightarrow> string \<Rightarrow>
   (Identity \<times> bool \<times> error option) \<times> call list" where
  "Login lib c srv tr s username password =
     (case do c srv tr (loginClosure lib c srv username password) of
        (Inl err, tr1) \<Rightarrow> ((emptyIdentity, False, Some err), tr1)
      | (Inr (incorrectPass, user), tr1) \<Rightarrow>
          if incorrectPass then ((emptyIdentity, False, None), tr1)
          else
            (case identityFromEntry c user of
               Inl err \<Rightarrow> ((emptyIdentity, False, Some err), tr1)
             | Inr ident \<Rightarrow>
                 if sc_Groups s then
                   (case groups lib c srv tr1 user of
                      ((groups1, Some err), tr2) \<Rightarrow>
                        ((emptyIdentity, False, Some (FailedToQueryGroups err)), tr2)
                    | ((groups1, None), tr2) \<Rightarrow>
                        (loginOffline lib s username user (ident\<lparr>Groups := groups1\<rparr>), tr2))
                 else (loginOffline lib s username user ident, tr1)))"

subsection \<open>Refresh\<close>

text \<open>The closure of \<^verbatim>\<open>Refresh\<close>, lines 408-418; its result is the variable \<^verbatim>\<open>user\<close>.\<close>

definition refreshClosure ::
  "library \<Rightarrow> ldapConnector \<Rightarrow> directory \<Rightarrow> string \<Rightarrow> nat \<Rightarrow> call list \<Rightarrow>
   (error + Entry) \<times> call list" where
  "refreshClosure lib c srv username conn tr =
     (case userEntry lib c srv conn tr username of
        (Inl err, tr1) \<Rightarrow> (Inl err, tr1)
      | (Inr (entry, found), tr1) \<Rightarrow>
          if \<not> found then (Inl (UserNotFound username), tr1)
          else (Inr entry, tr1))"

text \<open>
  \<^verbatim>\<open>Refresh\<close>, lines 401-440. The result is the pair the source returns (identity,
  error) and the trace.
\<close>

definition Refresh ::
  "library \<Rightarrow> ldapConnector \<Rightarrow> directory \<Rightarrow> call list \<Rightarrow> Scopes \<Rightarrow> Identity \<Rightarrow>
   (Identity \<times> error option) \<times> call list" where
  "Refresh lib c srv tr s ident =
     (case jsonUnmarshal lib (ConnectorData ident) of
        Inl err \<Rightarrow> ((ident, Some (FailedToUnmarshal err)), tr)
      | Inr data \<Rightarrow>
          (case do c srv tr (refreshClosure lib c srv (rd_Username data)) of
             (Inl err, tr1) \<Rightarrow> ((ident, Some err), tr1)
           | (Inr user, tr1) \<Rightarrow>
               if DN user \<noteq> DN (rd_Entry data)
               then ((ident,
                      Some (RefreshDNMismatch (rd_Username data) (DN (rd_Entry data)) (DN user))),
                     tr1)
               else
                 (case identityFromEntry c user of
                    Inl err \<Rightarrow> ((ident, Some err), tr1)
                  | Inr newIdent0 \<Rightarrow>
                      (let newIdent = newIdent0\<lparr>ConnectorData := ConnectorData ident\<rparr> in
                       if sc_Groups s then
                         (case groups lib c srv tr1 user of
                            ((groups1, Some err), tr2) \<Rightarrow>
                              ((emptyIdentity, Some (FailedToQueryGroups err)), tr2)
                          | ((groups1, None), tr2) \<Rightarrow>
                              ((newIdent\<lparr>Groups := groups1\<rparr>, None), tr2))
                       else ((newIdent, None), tr1)))))"

subsection \<open>The calls of one session\<close>

text \<open>
  Names for the traces the statements below speak about. \<open>serviceTrace\<close> is the trace
  after \<^verbatim>\<open>do\<close> has dialled and bound with the service account, starting from \<open>tr\<close>;
  \<open>sessionOpens\<close> says that the directory answered both calls with a nil error.
  \<open>userSearchTrace\<close> adds the search of \<^verbatim>\<open>userEntry\<close> on that connection,
  \<open>userBindTrace\<close> the bind of \<^verbatim>\<open>Login\<close> with a found entry's name and the password, and
  \<open>groupSearchTrace\<close> is the search of \<^verbatim>\<open>groups\<close> in a session of its own.
\<close>

definition serviceTrace :: "ldapConnector \<Rightarrow> call list \<Rightarrow> call list" where
  "serviceTrace c tr = tr @ [dialCall c, Bind (length tr) (BindDN (cfg c)) (BindPW (cfg c))]"

definition sessionOpens :: "ldapConnector \<Rightarrow> directory \<Rightarrow> call list \<Rightarrow> bool" where
  "sessionOpens c srv tr \<longleftrightarrow>
     dial_result srv (tr @ [dialCall c]) = None \<and> bind_result srv (serviceTrace c tr) = None"

definition userSearchTrace ::
  "library \<Rightarrow> ldapConnector \<Rightarrow> call list \<Rightarrow> string \<Rightarrow> call list" where
  "userSearchTrace lib c tr username =
     serviceTrace c tr @ [Search (length tr) (userSearchRequest lib c username)]"

definition userBindTrace ::
  "library \<Rightarrow> ldapConnector \<Rightarrow> call list \<Rightarrow> string \<Rightarrow> string \<Rightarrow> string \<Rightarrow> call list" where
  "userBindTrace lib c tr username dn password =
     userSearchTrace lib c tr username @ [Bind (length tr) dn password]"

definition groupSearchTrace ::
  "library \<Rightarrow> ldapConnector \<Rightarrow> call list \<Rightarrow> Entry \<Rightarrow> call list" where
  "groupSearchTrace lib c tr user =
     serviceTrace c tr @ [Search (length tr) (groupSearchRequest lib c user)]"

text \<open>The connections of a trace on which a bind with the name \<open>dn\<close> was issued.\<close>

fun bindConns :: "string \<Rightarrow> call list \<Rightarrow> nat list" where
  "bindConns dn [] = []"
| "bindConns dn (Bind conn dn' pw # tr) =
     (if dn' = dn then conn # bindConns dn tr else bindConns dn tr)"
| "bindConns dn (other # tr) = bindConns dn tr"

subsection \<open>An example directory\<close>

text \<open>
  A configuration, the connector built from it and a small directory: the user
  \<^verbatim>\<open>jane\<close> with the password \<^verbatim>\<open>pw\<close>, two entries for the user name \<^verbatim>\<open>dup\<close>, and two
  groups. The directory answers by the last call of the trace.
\<close>

definition exConfig :: Config where
  "exConfig =
     \<lparr>Host = ''ldap.example.com:636'', InsecureNoSSL = False, InsecureSkipVerify = False,
      RootCA = [], RootCAData = [], BindDN = ''uid=svc'', BindPW = ''secret'',
      UserSearch =
        \<lparr>us_BaseDN = ''ou=people'', us_Filter = [], us_Username = ''uid'',
         us_Scope = ''sub'', us_IDAttr = ''uid'', us_EmailAttr = ''mail'', us_NameAttr = ''cn''\<rparr>,
      GroupSearch =
        \<lparr>gs_BaseDN = ''ou=groups'', gs_Filter = [], gs_Scope = ''one'',
         gs_UserAttr = ''DN'', gs_GroupAttr = ''member'', gs_NameAttr = ''cn''\<rparr>\<rparr>"

definition exConnector :: ldapConnector where
  "exConnector =
     \<lparr>cfg = exConfig, userSearchScope = 2, groupSearchScope = 1,
      tlsConfig = \<lparr>ServerName = ''ldap.example.com'', tls_InsecureSkipVerify = False,
                   RootCAs = None\<rparr>\<rparr>"

definition exJane :: Entry where
  "exJane =
     \<lparr>DN = ''uid=jane,ou=people'',
      Attributes =
        [\<lparr>Name = ''uid'', Values = [''jane'']\<rparr>,
         \<lparr>Name = ''mail'', Values = [''jane@example.com'', ''j@example.com'']\<rparr>,
         \<lparr>Name = ''mail'', Values = [''other@example.com'']\<rparr>,
         \<lparr>Name = ''cn'', Values = []\<rparr>]\<rparr>"

definition exLiteralDN :: Entry where
  "exLiteralDN =
     \<lparr>DN = ''uid=joe,ou=people'',
      Attributes = [\<lparr>Name = ''DN'', Values = [''literal'']\<rparr>]\<rparr>"

definition exAnn :: Entry where
  "exAnn =
     \<lparr>DN = ''uid=ann,ou=people'',
      Attributes =
        [\<lparr>Name = ''uid'', Values = [''ann'']\<rparr>,
         \<lparr>Name = ''mail'', Values = [''ann@example.com'']\<rparr>,
         \<lparr>Name = ''cn'', Values = [''Ann'']\<rparr>]\<rparr>"

definition exGroupA :: Entry where
  "exGroupA = \<lparr>DN = ''cn=a,ou=groups'', Attributes = [\<lparr>Name = ''cn'', Values = [''admins'']\<rparr>]\<rparr>"

definition exGroupB :: Entry where
  "exGroupB = \<lparr>DN = ''cn=b,ou=groups'', Attributes = [\<lparr>Name = ''cn'', Values = [''staff'']\<rparr>]\<rparr>"

definition exGroupNoName :: Entry where
  "exGroupNoName = \<lparr>DN = ''cn=c,ou=groups'', Attributes = []\<rparr>"

text \<open>
  The service account binds with \<^verbatim>\<open>secret\<close>; every user has the password \<^verbatim>\<open>pw\<close>; the
  password \<^verbatim>\<open>down\<close> stands for a bind that fails on the network.
\<close>

definition exDirectory :: directory where
  "exDirectory =
     \<lparr>dial_result = (\<lambda>tr. None),
      bind_result = (\<lambda>tr.
        case last tr of
          Bind conn dn pw \<Rightarrow>
            if dn = ''uid=svc'' then
              (if pw = ''secret'' then None else Some (LdapError 49 ''Invalid Credentials''))
            else if pw = ''pw'' then None
            else if pw = ''down'' then Some (OtherError ''connection reset'')
            else Some (LdapError 49 ''Invalid Credentials'')
        | _ \<Rightarrow> None),
      search_result = (\<lambda>tr.
        case last tr of
          Search conn req \<Rightarrow>
            if req_BaseDN req = ''ou=groups'' then
              (if req_Filter req = ''(member=uid=jane,ou=people)'' then Inr [exGroupA, exGroupB]
               else if req_Filter req = ''(member=uid=ann,ou=people)''
               then Inr [exGroupA, exGroupNoName]
               else Inr [])
            else if req_Filter req = ''(uid=jane)'' then Inr [exJane]
            else if req_Filter req = ''(uid=ann)'' then Inr [exAnn]
            else if req_Filter req = ''(uid=dup)'' then Inr [exJane, exAnn]
            else Inr []
        | _ \<Rightarrow> Inr [])\<rparr>"

text \<open>
  The libraries of the example: the state \<^verbatim>\<open>gone\<close> names a user the directory does not
  have, \<^verbatim>\<open>moved\<close> caches another entry than the one the directory has for \<^verbatim>\<open>ann\<close>.
\<close>

definition exLibrary :: library where
  "exLibrary =
     \<lparr>escapeFilter = EscapeFilter,
      jsonMarshal = (\<lambda>d. Inr (rd_Username d)),
      jsonUnmarshal = (\<lambda>b.
        if b = ''gone'' then Inr \<lparr>rd_Username = ''nobody'', rd_Entry = exAnn\<rparr>
        else if b = ''moved'' then Inr \<lparr>rd_Username = ''ann'', rd_Entry = exJane\<rparr>
        else if b = ''ann'' then Inr \<lparr>rd_Username = ''ann'', rd_Entry = exAnn\<rparr>
        else if b = ''jane'' then Inr \<lparr>rd_Username = ''jane'', rd_Entry = exJane\<rparr>
        else Inl (OtherError ''invalid character'')),
      splitHostPort = (\<lambda>h.
        if h = ''ldap.example.com:636'' then Inr (''ldap.example.com'', ''636'')
        else Inl (OtherError ''missing port in address'')),
      readFile = (\<lambda>path. Inl (OtherError ''no such file or directory'')),
      appendCertsFromPEM = (\<lambda>data. False)\<rparr>"

text \<open>The example configuration with a group-search scope the connector does not know.\<close>

definition exBadScopeConfig :: Config where
  "exBadScopeConfig = exConfig\<lparr>GroupSearch := (GroupSearch exConfig)\<lparr>gs_Scope := ''base''\<rparr>\<rparr>"

definition exIdentity :: Identity where
  "exIdentity =
     \<lparr>UserID = ''ann'', Username = ''Ann'', Email = ''ann@example.com'', Groups = [''admins''],
      ConnectorData = ''ann''\<rparr>"

text \<open>A scope request for groups and offline access.\<close>

definition exScopes :: Scopes where
  "exScopes = \<lparr>sc_OfflineAccess = True, sc_Groups = True\<rparr>"

subsection \<open>Facts about the attribute reader and the identity mapper\<close>

lemma getAttrLoop_None: "getAttrLoop as name = None \<longleftrightarrow> name \<notin> Name ` set as"
  by (induction as) auto

lemma getAttrLoop_find:
  "getAttrLoop as name =
     map_option (\<lambda>a. case Values a of [] \<Rightarrow> [] | v # _ \<Rightarrow> v) (find (\<lambda>a. Name a = name) as)"
  by (induction as) (auto split: list.splits)

text \<open>
  C9. \<^verbatim>\<open>getAttr\<close> returns the first value of the first attribute of the entry that has the
  name asked for (the empty string when that attribute has no value). When the entry has
  no attribute of that name it returns the empty string, except for the name \<^verbatim>\<open>DN\<close>, for
  which it then returns the entry's distinguished name. So the distinguished name is the
  answer for \<^verbatim>\<open>DN\<close> only when no literal attribute \<^verbatim>\<open>DN\<close> exists: when one exists, its
  first value is returned.
\<close>

theorem getAttr_first_value_or_DN:
  "(find (\<lambda>a. Name a = name) (Attributes e) = Some a \<longrightarrow>
      getAttr e name = (case Values a of [] \<Rightarrow> [] | v # _ \<Rightarrow> v))
   \<and> (name \<notin> Name ` set (Attributes e) \<and> name \<noteq> ''DN'' \<longrightarrow> getAttr e name = [])
   \<and> (''DN'' \<notin> Name ` set (Attributes e) \<longrightarrow> getAttr e ''DN'' = DN e)
   \<and> (find (\<lambda>a. Name a = ''DN'') (Attributes e) = Some d \<longrightarrow>
        getAttr e ''DN'' = (case Values d of [] \<Rightarrow> [] | v # _ \<Rightarrow> v))"
proof -
  have found: "getAttr e n = (case Values b of [] \<Rightarrow> [] | v # _ \<Rightarrow> v)"
    if "find (\<lambda>a. Name a = n) (Attributes e) = Some b" for n b
    using that by (simp add: getAttr_def getAttrLoop_find)
  have absent: "getAttr e n = (if n = ''DN'' then DN e else [])"
    if "n \<notin> Name ` set (Attributes e)" for n
  proof -
    from that have "getAttrLoop (Attributes e) n = None"
      by (simp add: getAttrLoop_None)
    then show ?thesis by (simp add: getAttr_def)
  qed
  show ?thesis
    using found absent by simp
qed

theorem getAttr_first_value_or_DN_witness:
  "getAttr exJane ''mail'' = ''jane@example.com''
   \<and> getAttr exJane ''cn'' = []
   \<and> getAttr exJane ''sn'' = []
   \<and> getAttr exJane ''DN'' = ''uid=jane,ou=people''
   \<and> getAttr exLiteralDN ''DN'' = ''literal''"
proof -
  have mail: "find (\<lambda>a. Name a = ''mail'') (Attributes exJane)
                = Some \<lparr>Name = ''mail'', Values = [''jane@example.com'', ''j@example.com'']\<rparr>"
    by (simp add: exJane_def)
  have cn: "find (\<lambda>a. Name a = ''cn'') (Attributes exJane) = Some \<lparr>Name = ''cn'', Values = []\<rparr>"
    by (simp add: exJane_def)
  have sn: "''sn'' \<notin> Name ` set (Attributes exJane) \<and> ''sn'' \<noteq> ''DN''"
    by (simp add: exJane_def)
  have dn: "''DN'' \<notin> Name ` set (Attributes exJane)"
    by (simp add: exJane_def)
  have lit: "find (\<lambda>a. Name a = ''DN'') (Attributes exLiteralDN)
               = Some \<lparr>Name = ''DN'', Values = [''literal'']\<rparr>"
    by (simp add: exLiteralDN_def)
  have "getAttr exJane ''mail'' = ''jane@example.com''"
    using getAttr_first_value_or_DN [of "''mail''" exJane] mail by simp
  moreover have "getAttr exJane ''cn'' = []"
    using getAttr_first_value_or_DN [of "''cn''" exJane] cn by simp
  moreover have "getAttr exJane ''sn'' = []"
    using getAttr_first_value_or_DN [of "''sn''" exJane] sn by simp
  moreover have "getAttr exJane ''DN'' = ''uid=jane,ou=people''"
    using getAttr_first_value_or_DN [of _ exJane] dn by (simp add: exJane_def)
  moreover have "getAttr exLiteralDN ''DN'' = ''literal''"
    using getAttr_first_value_or_DN [of _ exLiteralDN] lit by simp
  ultimately show ?thesis by simp
qed

lemma identityFromEntry_missing:
  "identityFromEntry c user =
     (if missingAttrs c user = [] then
        Inr \<lparr>UserID = getAttr user (us_IDAttr (UserSearch (cfg c))),
             Username = (if us_NameAttr (UserSearch (cfg c)) \<noteq> []
                         then getAttr user (us_NameAttr (UserSearch (cfg c))) else []),
             Email = getAttr user (us_EmailAttr (UserSearch (cfg c))),
             Groups = [], ConnectorData = []\<rparr>
      else Inl (MissingAttributes (DN user) (missingAttrs c user)))"
  by (simp add: identityFromEntry_def emptyIdentity_def Let_def missingAttrs_def requiredAttrs_def)

text \<open>
  C3. \<^verbatim>\<open>identityFromEntry\<close> succeeds if and only if the configured id attribute and email
  attribute, and the name attribute when one is configured, all resolve to a non-empty
  value on the entry. When it fails, its error carries the entry's distinguished name
  and \<open>missingAttrs\<close>: every one of these attributes that resolved to empty (not only the
  first), in the order id, email, name.
\<close>

theorem identityFromEntry_succeeds_iff:
  "((\<exists>ident. identityFromEntry c user = Inr ident) \<longleftrightarrow>
      getAttr user (us_IDAttr (UserSearch (cfg c))) \<noteq> [] \<and>
      getAttr user (us_EmailAttr (UserSearch (cfg c))) \<noteq> [] \<and>
      (us_NameAttr (UserSearch (cfg c)) \<noteq> [] \<longrightarrow>
         getAttr user (us_NameAttr (UserSearch (cfg c))) \<noteq> []))
   \<and> ((\<nexists>ident. identityFromEntry c user = Inr ident) \<longrightarrow>
        identityFromEntry c user = Inl (MissingAttributes (DN user) (missingAttrs c user)))
   \<and> set (missingAttrs c user) = {a \<in> set (requiredAttrs c). getAttr user a = []}"
proof (intro conjI impI)
  have "(\<exists>ident. identityFromEntry c user = Inr ident) \<longleftrightarrow> missingAttrs c user = []"
    by (simp add: identityFromEntry_missing)
  also have "\<dots> \<longleftrightarrow> getAttr user (us_IDAttr (UserSearch (cfg c))) \<noteq> [] \<and>
      getAttr user (us_EmailAttr (UserSearch (cfg c))) \<noteq> [] \<and>
      (us_NameAttr (UserSearch (cfg c)) \<noteq> [] \<longrightarrow>
         getAttr user (us_NameAttr (UserSearch (cfg c))) \<noteq> [])"
    by (simp add: missingAttrs_def requiredAttrs_def)
  finally show "(\<exists>ident. identityFromEntry c user = Inr ident) \<longleftrightarrow>
      getAttr user (us_IDAttr (UserSearch (cfg c))) \<noteq> [] \<and>
      getAttr user (us_EmailAttr (UserSearch (cfg c))) \<noteq> [] \<and>
      (us_NameAttr (UserSearch (cfg c)) \<noteq> [] \<longrightarrow>
         getAttr user (us_NameAttr (UserSearch (cfg c))) \<noteq> [])" .
next
  assume "\<nexists>ident. identityFromEntry c user = Inr ident"
  then have "missingAttrs c user \<noteq> []"
    by (simp add: identityFromEntry_missing split: if_splits)
  then show "identityFromEntry c user = Inl (MissingAttributes (DN user) (missingAttrs c user))"
    by (simp add: identityFromEntry_missing)
next
  show "set (missingAttrs c user) = {a \<in> set (requiredAttrs c). getAttr user a = []}"
    by (simp add: missingAttrs_def)
qed

lemma getAttr_examples:
  "getAttr exAnn ''uid'' = ''ann''" "getAttr exAnn ''mail'' = ''ann@example.com''"
  "getAttr exAnn ''cn'' = ''Ann''" "getAttr exAnn ''DN'' = ''uid=ann,ou=people''"
  "getAttr exJane ''uid'' = ''jane''" "getAttr exJane ''mail'' = ''jane@example.com''"
  "getAttr exJane ''cn'' = []" "getAttr exJane ''DN'' = ''uid=jane,ou=people''"
  "getAttr exGroupA ''cn'' = ''admins''" "getAttr exGroupB ''cn'' = ''staff''"
  "getAttr exGroupNoName ''cn'' = []" "getAttr exGroupNoName ''uid'' = []"
  "getAttr exGroupNoName ''mail'' = []"
  by (simp_all add: getAttr_def exAnn_def exJane_def exGroupA_def exGroupB_def
        exGroupNoName_def)

lemma exConnector_attrs:
  "us_IDAttr (UserSearch (cfg exConnector)) = ''uid''"
  "us_EmailAttr (UserSearch (cfg exConnector)) = ''mail''"
  "us_NameAttr (UserSearch (cfg exConnector)) = ''cn''"
  "gs_NameAttr (GroupSearch (cfg exConnector)) = ''cn''"
  "gs_UserAttr (GroupSearch (cfg exConnector)) = ''DN''"
  "gs_GroupAttr (GroupSearch (cfg exConnector)) = ''member''"
  "gs_Filter (GroupSearch (cfg exConnector)) = []"
  "gs_BaseDN (GroupSearch (cfg exConnector)) = ''ou=groups''"
  "us_Filter (UserSearch (cfg exConnector)) = []"
  "us_Username (UserSearch (cfg exConnector)) = ''uid''"
  "us_BaseDN (UserSearch (cfg exConnector)) = ''ou=people''"
  "BindDN (cfg exConnector) = ''uid=svc''" "BindPW (cfg exConnector) = ''secret''"
  "InsecureNoSSL (cfg exConnector) = False"
  by (simp_all add: exConnector_def exConfig_def)

theorem identityFromEntry_succeeds_iff_witness:
  "(\<exists>ident. identityFromEntry exConnector exAnn = Inr ident)
   \<and> identityFromEntry exConnector exJane
       = Inl (MissingAttributes ''uid=jane,ou=people'' [''cn''])
   \<and> identityFromEntry exConnector exGroupNoName
       = Inl (MissingAttributes ''cn=c,ou=groups'' [''uid'', ''mail'', ''cn''])"
proof -
  have ann: "\<exists>ident. identityFromEntry exConnector exAnn = Inr ident"
    using identityFromEntry_succeeds_iff [of exConnector exAnn]
    by (simp add: exConnector_attrs getAttr_examples)
  have "\<nexists>ident. identityFromEntry exConnector exJane = Inr ident"
    using identityFromEntry_succeeds_iff [of exConnector exJane]
    by (simp add: exConnector_attrs getAttr_examples)
  then have jane: "identityFromEntry exConnector exJane
       = Inl (MissingAttributes ''uid=jane,ou=people'' [''cn''])"
    using identityFromEntry_succeeds_iff [of exConnector exJane]
    by (simp add: missingAttrs_def requiredAttrs_def exConnector_attrs getAttr_examples)
      (simp add: exJane_def)
  have "\<nexists>ident. identityFromEntry exConnector exGroupNoName = Inr ident"
    using identityFromEntry_succeeds_iff [of exConnector exGroupNoName]
    by (simp add: exConnector_attrs getAttr_examples)
  then have none: "identityFromEntry exConnector exGroupNoName
       = Inl (MissingAttributes ''cn=c,ou=groups'' [''uid'', ''mail'', ''cn''])"
    using identityFromEntry_succeeds_iff [of exConnector exGroupNoName]
    by (simp add: missingAttrs_def requiredAttrs_def exConnector_attrs getAttr_examples)
      (simp add: exGroupNoName_def)
  from ann jane none show ?thesis by simp
qed

subsection \<open>Facts about connector construction\<close>

lemma parseScope_ok: "snd (parseScope s) \<longleftrightarrow> s = [] \<or> s = ''sub'' \<or> s = ''one''"
  by (simp add: parseScope_def)

lemma OpenConnector_error_kind:
  "OpenConnector lib c = Inl err \<Longrightarrow> isConfigurationError err"
  by (auto simp: OpenConnector_def buildTLSConfig_def Let_def
        split: option.splits sum.splits prod.splits if_splits
        elim!: checkRequiredFields.elims)

lemma OpenConnector_bad_scope:
  "\<not> snd (parseScope (us_Scope (UserSearch c))) \<or> \<not> snd (parseScope (gs_Scope (GroupSearch c)))
   \<Longrightarrow> \<exists>err. OpenConnector lib c = Inl err"
  by (auto simp: OpenConnector_def Let_def split: option.splits sum.splits prod.splits)

lemma OpenConnector_example: "OpenConnector exLibrary exConfig = Inr exConnector"
  by (simp add: OpenConnector_def exLibrary_def exConfig_def exConnector_def buildTLSConfig_def
        parseScope_def ScopeWholeSubtree_def ScopeSingleLevel_def)

lemma OpenConnector_bad_scope_example:
  "OpenConnector exLibrary exBadScopeConfig = Inl (ScopeUnknownValue ''base'')"
  by (simp add: OpenConnector_def exLibrary_def exConfig_def exBadScopeConfig_def
        buildTLSConfig_def parseScope_def ScopeWholeSubtree_def ScopeSingleLevel_def)

text \<open>
  C6. \<^verbatim>\<open>parseScope\<close> resolves the empty string and \<^verbatim>\<open>sub\<close> to the whole-subtree scope and
  \<^verbatim>\<open>one\<close> to the single-level scope, and rejects every other string. A configuration
  whose user-search or group-search scope is any other string makes \<^verbatim>\<open>OpenConnector\<close>
  (and \<^verbatim>\<open>Open\<close>) return an error, and that error is a configuration error. No call on the
  directory precedes it: \<^verbatim>\<open>OpenConnector\<close> makes none (its model takes no directory and
  returns no trace), and every dial, bind and search of the connector needs the
  connector value that \<^verbatim>\<open>OpenConnector\<close> did not return.
\<close>

theorem parseScope_OpenConnector:
  "parseScope [] = (ScopeWholeSubtree, True)
   \<and> parseScope ''sub'' = (ScopeWholeSubtree, True)
   \<and> parseScope ''one'' = (ScopeSingleLevel, True)
   \<and> (s \<noteq> [] \<and> s \<noteq> ''sub'' \<and> s \<noteq> ''one'' \<longrightarrow> parseScope s = (0, False))
   \<and> (us_Scope (UserSearch c) \<notin> {[], ''sub'', ''one''} \<or>
        gs_Scope (GroupSearch c) \<notin> {[], ''sub'', ''one''} \<longrightarrow>
        (\<exists>err. OpenConnector lib c = Inl err \<and> Open lib c = Inl err \<and>
               isConfigurationError err))"
proof (intro conjI impI)
  assume bad: "us_Scope (UserSearch c) \<notin> {[], ''sub'', ''one''} \<or>
        gs_Scope (GroupSearch c) \<notin> {[], ''sub'', ''one''}"
  then have "\<not> snd (parseScope (us_Scope (UserSearch c))) \<or>
             \<not> snd (parseScope (gs_Scope (GroupSearch c)))"
    by (simp add: parseScope_ok)
  then obtain err where e: "OpenConnector lib c = Inl err"
    using OpenConnector_bad_scope by blast
  then have "Open lib c = Inl err" by (simp add: Open_def)
  with e OpenConnector_error_kind [OF e]
  show "\<exists>err. OpenConnector lib c = Inl err \<and> Open lib c = Inl err \<and> isConfigurationError err"
    by blast
qed (simp_all add: parseScope_def)

theorem parseScope_OpenConnector_witness:
  "parseScope ''base'' = (0, False)
   \<and> (\<exists>err. OpenConnector exLibrary exBadScopeConfig = Inl err \<and>
             Open exLibrary exBadScopeConfig = Inl err \<and> isConfigurationError err)"
proof -
  have s: "''base'' \<noteq> [] \<and> ''base'' \<noteq> ''sub'' \<and> ''base'' \<noteq> ''one''" by simp
  have c: "us_Scope (UserSearch exBadScopeConfig) \<notin> {[], ''sub'', ''one''} \<or>
        gs_Scope (GroupSearch exBadScopeConfig) \<notin> {[], ''sub'', ''one''}"
    by (simp add: exBadScopeConfig_def)
  show ?thesis
    using parseScope_OpenConnector [of "''base''" exBadScopeConfig exLibrary] s c by blast
qed

subsection \<open>Facts about the filters\<close>

lemma hexDigit_table:
  "list_all (\<lambda>n. hexValue (hexDigit n) = Some n \<and>
                  hexDigit n \<notin> {CHR ''('', CHR '')'', CHR ''*'', CHR 0x00, CHR 0x5C})
     [0..<16]"
  by code_simp

lemma hexValue_hexDigit: "n < 16 \<Longrightarrow> hexValue (hexDigit n) = Some n"
  using hexDigit_table by (simp add: list_all_iff)

lemma hexDigit_plain:
  "n < 16 \<Longrightarrow> hexDigit n \<notin> {CHR ''('', CHR '')'', CHR ''*'', CHR 0x00, CHR 0x5C}"
  using hexDigit_table unfolding list_all_iff by simp

lemma char_nibbles:
  "(of_char c :: nat) div 16 < 16" "(of_char c :: nat) mod 16 < 16"
  "char_of (16 * ((of_char c :: nat) div 16) + of_char c mod 16) = c"
proof -
  have "(of_char c :: nat) < 256" by simp
  then show "(of_char c :: nat) div 16 < 16" by arith
  show "(of_char c :: nat) mod 16 < 16" by simp
  show "char_of (16 * ((of_char c :: nat) div 16) + of_char c mod 16) = c" by simp
qed

lemma unescapeValue_EscapeFilter: "unescapeValue (EscapeFilter s) = Some s"
proof (induction s)
  case Nil
  show ?case by simp
next
  case (Cons c s)
  show ?case
  proof (cases "mustEscape c")
    case True
    then show ?thesis
      using Cons.IH hexValue_hexDigit [OF char_nibbles(1) [of c]]
        hexValue_hexDigit [OF char_nibbles(2) [of c]] char_nibbles(3) [of c]
      by simp
  next
    case False
    then show ?thesis using Cons.IH by (simp add: mustEscape_def)
  qed
qed

lemma EscapeFilter_no_meta:
  "set (EscapeFilter s) \<inter> {CHR ''('', CHR '')'', CHR ''*'', CHR 0x00} = {}"
proof (induction s)
  case Nil
  show ?case by simp
next
  case (Cons c s)
  show ?case
  proof (cases "mustEscape c")
    case True
    then show ?thesis
      using Cons.IH hexDigit_plain [OF char_nibbles(1) [of c]]
        hexDigit_plain [OF char_nibbles(2) [of c]]
      by simp
  next
    case False
    then show ?thesis
      using Cons.IH by (simp add: mustEscape_def)
  qed
qed

lemma takeWhile_until: "x \<notin> set xs \<Longrightarrow> takeWhile (\<lambda>y. y \<noteq> x) (xs @ x # rest) = xs"
  by (induction xs) auto

lemma EscapeFilter_value_ends:
  "takeWhile (\<lambda>x. x \<noteq> CHR '')'') (EscapeFilter s @ CHR '')'' # rest) = EscapeFilter s"
proof -
  have "CHR '')'' \<notin> set (EscapeFilter s)"
    using EscapeFilter_no_meta [of s] by auto
  then show ?thesis
    by (rule takeWhile_until)
qed

text \<open>
  C5. With \<^verbatim>\<open>ldap.EscapeFilter\<close> as modelled above, the user-search filter is
  \<^verbatim>\<open>(\<close>usernameAttr\<^verbatim>\<open>=\<close>escaped username\<^verbatim>\<open>)\<close> when no base filter is configured and
  \<^verbatim>\<open>(&\<close>baseFilter\<^verbatim>\<open>(\<close>usernameAttr\<^verbatim>\<open>=\<close>escaped username\<^verbatim>\<open>))\<close> when one is; the group filter is
  built the same way from the group attribute and the user entry's link value. The
  escaped value contains no bare \<^verbatim>\<open>(\<close>, \<^verbatim>\<open>)\<close>, \<^verbatim>\<open>*\<close> or NUL, so in the filter it ends at the
  closing parenthesis the connector writes after it, and read back by the filter grammar
  it is exactly the original value: metacharacters of the user name match only
  literally.
\<close>

theorem filters_escape_value:
  "userFilter (lib\<lparr>escapeFilter := EscapeFilter\<rparr>) c username =
     (if us_Filter (UserSearch (cfg c)) = []
      then ''('' @ us_Username (UserSearch (cfg c)) @ ''='' @ EscapeFilter username @ '')''
      else ''(&'' @ us_Filter (UserSearch (cfg c)) @
           ''('' @ us_Username (UserSearch (cfg c)) @ ''='' @ EscapeFilter username @ ''))'')
   \<and> groupFilter (lib\<lparr>escapeFilter := EscapeFilter\<rparr>) c user =
     (if gs_Filter (GroupSearch (cfg c)) = []
      then ''('' @ gs_GroupAttr (GroupSearch (cfg c)) @ ''='' @
           EscapeFilter (getAttr user (gs_UserAttr (GroupSearch (cfg c)))) @ '')''
      else ''(&'' @ gs_Filter (GroupSearch (cfg c)) @
           ''('' @ gs_GroupAttr (GroupSearch (cfg c)) @ ''='' @
           EscapeFilter (getAttr user (gs_UserAttr (GroupSearch (cfg c)))) @ ''))'')
   \<and> set (EscapeFilter username) \<inter> {CHR ''('', CHR '')'', CHR ''*'', CHR 0x00} = {}
   \<and> takeWhile (\<lambda>x. x \<noteq> CHR '')'') (EscapeFilter username @ CHR '')'' # rest)
       = EscapeFilter username
   \<and> unescapeValue (EscapeFilter username) = Some username"
  by (simp add: userFilter_def groupFilter_def Let_def EscapeFilter_no_meta
        EscapeFilter_value_ends unescapeValue_EscapeFilter)

lemma EscapeFilter_example:
  "EscapeFilter ''*)(uid=*'' =
     [CHR 0x5C] @ ''2a'' @ [CHR 0x5C] @ ''29'' @ [CHR 0x5C] @ ''28uid='' @ [CHR 0x5C] @ ''2a''"
  by (simp add: mustEscape_def hexDigit_def)

lemma EscapeFilter_names:
  "EscapeFilter ''jane'' = ''jane''" "EscapeFilter ''ann'' = ''ann''"
  "EscapeFilter ''dup'' = ''dup''" "EscapeFilter ''nobody'' = ''nobody''"
  "EscapeFilter ''uid=jane,ou=people'' = ''uid=jane,ou=people''"
  "EscapeFilter ''uid=ann,ou=people'' = ''uid=ann,ou=people''"
  by (simp_all add: mustEscape_def)

lemma userFilter_example:
  "userFilter exLibrary exConnector ''*)(uid=*'' =
     ''(uid='' @ [CHR 0x5C] @ ''2a'' @ [CHR 0x5C] @ ''29'' @ [CHR 0x5C] @ ''28uid='' @
     [CHR 0x5C] @ ''2a)''"
  by (simp add: userFilter_def exLibrary_def exConnector_attrs mustEscape_def hexDigit_def)

subsection \<open>Facts about sessions and Login\<close>

lemma do_opens:
  "sessionOpens c srv tr \<Longrightarrow>
   do c srv tr f =
     (case f (length tr) (serviceTrace c tr) of (r, tr3) \<Rightarrow> (r, tr3 @ [Close (length tr)]))"
  by (simp add: do_def sessionOpens_def serviceTrace_def Let_def)

lemma do_not_opens:
  "\<not> sessionOpens c srv tr \<Longrightarrow> \<exists>err tr1. do c srv tr f = (Inl err, tr1)"
  by (auto simp: do_def sessionOpens_def serviceTrace_def Let_def split: option.splits)

lemma userEntry_search:
  "userEntry lib c srv (length tr) (serviceTrace c tr) username =
     (case search_result srv (userSearchTrace lib c tr username) of
        Inl err \<Rightarrow> Inl (SearchFailed (userFilter lib c username) err)
      | Inr entries \<Rightarrow>
          if entries = [] then Inr (emptyEntry, False)
          else if length entries = 1 then Inr (hd entries, True)
          else Inl (MultipleResults (length entries) (userFilter lib c username)),
      userSearchTrace lib c tr username)"
proof -
  have f: "req_Filter (userSearchRequest lib c username) = userFilter lib c username"
    by (simp add: userSearchRequest_def Let_def)
  show ?thesis
    by (auto simp: userEntry_def userSearchTrace_def Let_def f hd_conv_nth split: sum.splits)
qed

lemma loginClosure_zero:
  "search_result srv (userSearchTrace lib c tr username) = Inr [] \<Longrightarrow>
   loginClosure lib c srv username password (length tr) (serviceTrace c tr) =
     (Inr (True, emptyEntry), userSearchTrace lib c tr username)"
  by (simp add: loginClosure_def userEntry_search)

lemma loginClosure_many:
  "search_result srv (userSearchTrace lib c tr username) = Inr es \<Longrightarrow> 1 < length es \<Longrightarrow>
   loginClosure lib c srv username password (length tr) (serviceTrace c tr) =
     (Inl (MultipleResults (length es) (userFilter lib c username)),
      userSearchTrace lib c tr username)"
  by (auto simp: loginClosure_def userEntry_search)

lemma loginClosure_search_error:
  "search_result srv (userSearchTrace lib c tr username) = Inl err \<Longrightarrow>
   loginClosure lib c srv username password (length tr) (serviceTrace c tr) =
     (Inl (SearchFailed (userFilter lib c username) err), userSearchTrace lib c tr username)"
  by (simp add: loginClosure_def userEntry_search)

lemma loginClosure_one:
  "search_result srv (userSearchTrace lib c tr username) = Inr [e] \<Longrightarrow>
   loginClosure lib c srv username password (length tr) (serviceTrace c tr) =
     (case bind_result srv (userBindTrace lib c tr username (DN e) password) of
        None \<Rightarrow> Inr (False, e)
      | Some err \<Rightarrow>
          if \<exists>m. err = LdapError LDAPResultInvalidCredentials m then Inr (True, e)
          else Inl (FailedToBindAsDN (DN e) err),
      userBindTrace lib c tr username (DN e) password)"
  by (auto simp: loginClosure_def userEntry_search userBindTrace_def Let_def
        split: option.splits lib_error.splits)

lemma Login_not_found:
  "sessionOpens c srv tr \<Longrightarrow>
   search_result srv (userSearchTrace lib c tr username) = Inr [] \<Longrightarrow>
   Login lib c srv tr s username password =
     ((emptyIdentity, False, None), userSearchTrace lib c tr username @ [Close (length tr)])"
  by (simp add: Login_def do_opens loginClosure_zero)

lemma Login_search_error:
  "sessionOpens c srv tr \<Longrightarrow>
   search_result srv (userSearchTrace lib c tr username) = Inl err \<Longrightarrow>
   Login lib c srv tr s username password =
     ((emptyIdentity, False, Some (SearchFailed (userFilter lib c username) err)),
      userSearchTrace lib c tr username @ [Close (length tr)])"
  by (simp add: Login_def do_opens loginClosure_search_error)

lemma Login_multiple:
  "sessionOpens c srv tr \<Longrightarrow>
   search_result srv (userSearchTrace lib c tr username) = Inr es \<Longrightarrow> 1 < length es \<Longrightarrow>
   Login lib c srv tr s username password =
     ((emptyIdentity, False, Some (MultipleResults (length es) (userFilter lib c username))),
      userSearchTrace lib c tr username @ [Close (length tr)])"
  by (simp add: Login_def do_opens loginClosure_many)

lemma Login_invalid_credentials:
  "sessionOpens c srv tr \<Longrightarrow>
   search_result srv (userSearchTrace lib c tr username) = Inr [e] \<Longrightarrow>
   bind_result srv (userBindTrace lib c tr username (DN e) password)
     = Some (LdapError LDAPResultInvalidCredentials msg) \<Longrightarrow>
   Login lib c srv tr s username password =
     ((emptyIdentity, False, None),
      userBindTrace lib c tr username (DN e) password @ [Close (length tr)])"
  by (simp add: Login_def do_opens loginClosure_one)

lemma Login_bind_error:
  "sessionOpens c srv tr \<Longrightarrow>
   search_result srv (userSearchTrace lib c tr username) = Inr [e] \<Longrightarrow>
   bind_result srv (userBindTrace lib c tr username (DN e) password) = Some err \<Longrightarrow>
   \<forall>m. err \<noteq> LdapError LDAPResultInvalidCredentials m \<Longrightarrow>
   Login lib c srv tr s username password =
     ((emptyIdentity, False, Some (FailedToBindAsDN (DN e) err)),
      userBindTrace lib c tr username (DN e) password @ [Close (length tr)])"
  by (simp add: Login_def do_opens loginClosure_one)

lemma Login_not_opens:
  "\<not> sessionOpens c srv tr \<Longrightarrow>
   \<exists>err. fst (Login lib c srv tr s username password) = (emptyIdentity, False, Some err)"
proof -
  assume "\<not> sessionOpens c srv tr"
  then obtain err tr1 where
    "do c srv tr (loginClosure lib c srv username password) = (Inl err, tr1)"
    using do_not_opens by blast
  then show ?thesis by (simp add: Login_def)
qed

lemma loginOffline_valid:
  "fst (snd (loginOffline lib s username user ident)) \<longleftrightarrow>
   snd (snd (loginOffline lib s username user ident)) = None"
  by (simp add: loginOffline_def split: sum.splits)

lemma Login_bound:
  assumes "sessionOpens c srv tr"
    and "search_result srv (userSearchTrace lib c tr username) = Inr [e]"
    and "bind_result srv (userBindTrace lib c tr username (DN e) password) = None"
  shows "fst (snd (fst (Login lib c srv tr s username password))) \<longleftrightarrow>
         snd (snd (fst (Login lib c srv tr s username password))) = None"
  using assms
  by (auto simp: Login_def do_opens loginClosure_one loginOffline_valid
        split: sum.splits prod.splits option.splits)

text \<open>
  C1. In a session that opened (dial and service-account bind answered with a nil
  error): when the user search returns no entry, or returns one entry and the bind with
  that entry's distinguished name and the password fails with the result code for
  invalid credentials, \<^verbatim>\<open>Login\<close> returns the zero identity, \<^verbatim>\<open>validPass = false\<close> and a nil
  error; when the search returns more than one entry, or the bind of the one entry fails
  in any other way, \<^verbatim>\<open>Login\<close> returns a non-nil error. Conversely, whenever \<^verbatim>\<open>Login\<close>
  returns \<^verbatim>\<open>validPass = false\<close> with a nil error, the session opened and one of the first
  two conditions holds.
\<close>

theorem Login_authentication_failure:
  "(sessionOpens c srv tr \<and> search_result srv (userSearchTrace lib c tr username) = Inr [] \<longrightarrow>
      fst (Login lib c srv tr s username password) = (emptyIdentity, False, None))
   \<and> (sessionOpens c srv tr \<and>
        search_result srv (userSearchTrace lib c tr username) = Inr [e] \<and>
        bind_result srv (userBindTrace lib c tr username (DN e) password)
          = Some (LdapError LDAPResultInvalidCredentials msg) \<longrightarrow>
      fst (Login lib c srv tr s username password) = (emptyIdentity, False, None))
   \<and> (sessionOpens c srv tr \<and>
        search_result srv (userSearchTrace lib c tr username) = Inr es \<and> 1 < length es \<longrightarrow>
      fst (Login lib c srv tr s username password)
        = (emptyIdentity, False, Some (MultipleResults (length es) (userFilter lib c username))))
   \<and> (sessionOpens c srv tr \<and>
        search_result srv (userSearchTrace lib c tr username) = Inr [e] \<and>
        bind_result srv (userBindTrace lib c tr username (DN e) password) = Some err \<and>
        (\<forall>m. err \<noteq> LdapError LDAPResultInvalidCredentials m) \<longrightarrow>
      fst (Login lib c srv tr s username password)
        = (emptyIdentity, False, Some (FailedToBindAsDN (DN e) err)))
   \<and> (\<not> fst (snd (fst (Login lib c srv tr s username password))) \<and>
        snd (snd (fst (Login lib c srv tr s username password))) = None \<longrightarrow>
      sessionOpens c srv tr \<and>
      (search_result srv (userSearchTrace lib c tr username) = Inr [] \<or>
       (\<exists>e' m. search_result srv (userSearchTrace lib c tr username) = Inr [e'] \<and>
          bind_result srv (userBindTrace lib c tr username (DN e') password)
            = Some (LdapError LDAPResultInvalidCredentials m))))"
proof (intro conjI impI)
  let ?L = "Login lib c srv tr s username password"
  let ?found = "search_result srv (userSearchTrace lib c tr username)"
  assume quiet: "\<not> fst (snd (fst ?L)) \<and> snd (snd (fst ?L)) = None"
  show opens: "sessionOpens c srv tr"
  proof (rule ccontr)
    assume "\<not> sessionOpens c srv tr"
    from Login_not_opens [OF this, of lib s username password] quiet
    show False by auto
  qed
  show "?found = Inr [] \<or>
       (\<exists>e' m. ?found = Inr [e'] \<and>
          bind_result srv (userBindTrace lib c tr username (DN e') password)
            = Some (LdapError LDAPResultInvalidCredentials m))"
  proof (cases ?found)
    case (Inl err)
    from Login_search_error [OF opens Inl, of s password] quiet show ?thesis by simp
  next
    case (Inr es)
    consider "es = []" | e' where "es = [e']" | "1 < length es"
      by (cases es; cases "tl es") auto
    then show ?thesis
    proof cases
      case 1
      with Inr show ?thesis by simp
    next
      case 3
      from Login_multiple [OF opens Inr 3, of s password] quiet show ?thesis by simp
    next
      case 2
      with Inr have one: "?found = Inr [e']" by simp
      show ?thesis
      proof (cases "bind_result srv (userBindTrace lib c tr username (DN e') password)")
        case None
        from Login_bound [OF opens one None, of s] quiet show ?thesis by simp
      next
        case (Some berr)
        show ?thesis
        proof (cases "\<exists>m. berr = LdapError LDAPResultInvalidCredentials m")
          case True
          with Some one show ?thesis by auto
        next
          case False
          then have "\<forall>m. berr \<noteq> LdapError LDAPResultInvalidCredentials m" by simp
          from Login_bind_error [OF opens one Some this, of s] quiet show ?thesis by simp
        qed
      qed
    qed
  qed
qed (simp_all add: Login_not_found Login_invalid_credentials Login_multiple Login_bind_error)

lemma ex_sessionOpens: "sessionOpens exConnector exDirectory tr"
  by (simp add: sessionOpens_def serviceTrace_def exDirectory_def exConnector_attrs)

lemma ex_userFilter:
  "userFilter exLibrary exConnector ''nobody'' = ''(uid=nobody)''"
  "userFilter exLibrary exConnector ''ann'' = ''(uid=ann)''"
  "userFilter exLibrary exConnector ''jane'' = ''(uid=jane)''"
  "userFilter exLibrary exConnector ''dup'' = ''(uid=dup)''"
  by (simp_all add: userFilter_def exLibrary_def exConnector_attrs mustEscape_def)

lemma ex_user_search:
  "search_result exDirectory (userSearchTrace exLibrary exConnector tr ''nobody'') = Inr []"
  "search_result exDirectory (userSearchTrace exLibrary exConnector tr ''ann'') = Inr [exAnn]"
  "search_result exDirectory (userSearchTrace exLibrary exConnector tr ''jane'') = Inr [exJane]"
  "search_result exDirectory (userSearchTrace exLibrary exConnector tr ''dup'')
     = Inr [exJane, exAnn]"
  by (simp_all add: userSearchTrace_def exDirectory_def userSearchRequest_def ex_userFilter
        exConnector_attrs Let_def)

lemma ex_DN: "DN exAnn = ''uid=ann,ou=people''" "DN exJane = ''uid=jane,ou=people''"
  by (simp_all add: exAnn_def exJane_def)

lemma ex_user_bind:
  "bind_result exDirectory (userBindTrace exLibrary exConnector tr u ''uid=ann,ou=people'' ''pw'')
     = None"
  "bind_result exDirectory (userBindTrace exLibrary exConnector tr u ''uid=ann,ou=people'' ''wrong'')
     = Some (LdapError 49 ''Invalid Credentials'')"
  "bind_result exDirectory (userBindTrace exLibrary exConnector tr u ''uid=ann,ou=people'' ''down'')
     = Some (OtherError ''connection reset'')"
  "bind_result exDirectory (userBindTrace exLibrary exConnector tr u ''uid=jane,ou=people'' ''pw'')
     = None"
  by (simp_all add: userBindTrace_def exDirectory_def)

theorem Login_authentication_failure_witness:
  "fst (Login exLibrary exConnector exDirectory [] exScopes ''nobody'' ''pw'')
     = (emptyIdentity, False, None)
   \<and> fst (Login exLibrary exConnector exDirectory [] exScopes ''ann'' ''wrong'')
     = (emptyIdentity, False, None)
   \<and> fst (Login exLibrary exConnector exDirectory [] exScopes ''dup'' ''pw'')
     = (emptyIdentity, False, Some (MultipleResults 2 ''(uid=dup)''))
   \<and> fst (Login exLibrary exConnector exDirectory [] exScopes ''ann'' ''down'')
     = (emptyIdentity, False,
        Some (FailedToBindAsDN ''uid=ann,ou=people'' (OtherError ''connection reset'')))
   \<and> sessionOpens exConnector exDirectory []
   \<and> (search_result exDirectory (userSearchTrace exLibrary exConnector [] ''ann'') = Inr [] \<or>
       (\<exists>e' m. search_result exDirectory (userSearchTrace exLibrary exConnector [] ''ann'')
                 = Inr [e'] \<and>
          bind_result exDirectory
            (userBindTrace exLibrary exConnector [] ''ann'' (DN e') ''wrong'')
            = Some (LdapError LDAPResultInvalidCredentials m)))"
proof -
  note ex = ex_sessionOpens ex_user_search ex_user_bind ex_DN ex_userFilter
    LDAPResultInvalidCredentials_def
  have nobody: "fst (Login exLibrary exConnector exDirectory [] exScopes ''nobody'' ''pw'')
     = (emptyIdentity, False, None)"
    using Login_authentication_failure
      [of exConnector exDirectory "[]" exLibrary "''nobody''" exScopes "''pw''"]
    by (simp add: ex)
  have wrong: "fst (Login exLibrary exConnector exDirectory [] exScopes ''ann'' ''wrong'')
     = (emptyIdentity, False, None)"
    using Login_authentication_failure
      [of exConnector exDirectory "[]" exLibrary "''ann''" exScopes "''wrong''" exAnn
          "''Invalid Credentials''"]
    by (simp add: ex)
  have dup: "fst (Login exLibrary exConnector exDirectory [] exScopes ''dup'' ''pw'')
     = (emptyIdentity, False, Some (MultipleResults 2 ''(uid=dup)''))"
    using Login_authentication_failure
      [of exConnector exDirectory "[]" exLibrary "''dup''" exScopes "''pw''" _ _
          "[exJane, exAnn]"]
    by (simp add: ex)
  have down: "fst (Login exLibrary exConnector exDirectory [] exScopes ''ann'' ''down'')
     = (emptyIdentity, False,
        Some (FailedToBindAsDN ''uid=ann,ou=people'' (OtherError ''connection reset'')))"
    using Login_authentication_failure
      [of exConnector exDirectory "[]" exLibrary "''ann''" exScopes "''down''" exAnn _ _
          "OtherError ''connection reset''"]
    by (simp add: ex)
  have only: "sessionOpens exConnector exDirectory [] \<and>
     (search_result exDirectory (userSearchTrace exLibrary exConnector [] ''ann'') = Inr [] \<or>
       (\<exists>e' m. search_result exDirectory (userSearchTrace exLibrary exConnector [] ''ann'')
                 = Inr [e'] \<and>
          bind_result exDirectory
            (userBindTrace exLibrary exConnector [] ''ann'' (DN e') ''wrong'')
            = Some (LdapError LDAPResultInvalidCredentials m)))"
    using Login_authentication_failure
      [of exConnector exDirectory "[]" exLibrary "''ann''" exScopes "''wrong''"] wrong
    by simp
  from nobody wrong dup down only show ?thesis by simp
qed

subsection \<open>Facts about group resolution\<close>

lemma groupNamesLoop_all_named:
  "\<forall>g\<in>set gs. getAttr g (gs_NameAttr (GroupSearch (cfg c))) \<noteq> [] \<Longrightarrow>
   groupNamesLoop c gs acc =
     (acc @ map (\<lambda>g. getAttr g (gs_NameAttr (GroupSearch (cfg c)))) gs, None)"
  by (induction gs arbitrary: acc) (simp_all add: Let_def)

lemma groupNamesLoop_unnamed:
  "\<exists>g\<in>set gs. getAttr g (gs_NameAttr (GroupSearch (cfg c))) = [] \<Longrightarrow>
   \<exists>g\<in>set gs. getAttr g (gs_NameAttr (GroupSearch (cfg c))) = [] \<and>
     groupNamesLoop c gs acc =
       ([], Some (GroupMissingAttribute (DN g) (gs_NameAttr (GroupSearch (cfg c)))))"
proof (induction gs arbitrary: acc)
  case Nil
  then show ?case by simp
next
  case (Cons g gs)
  show ?case
  proof (cases "getAttr g (gs_NameAttr (GroupSearch (cfg c))) = []")
    case True
    then show ?thesis by simp
  next
    case False
    with Cons.prems have "\<exists>g\<in>set gs. getAttr g (gs_NameAttr (GroupSearch (cfg c))) = []"
      by auto
    from Cons.IH [OF this, of "acc @ [getAttr g (gs_NameAttr (GroupSearch (cfg c)))]"] False
    show ?thesis by (auto simp: Let_def)
  qed
qed

lemma groups_opens:
  "sessionOpens c srv tr \<Longrightarrow>
   search_result srv (groupSearchTrace lib c tr user) = Inr gs \<Longrightarrow>
   groups lib c srv tr user =
     (groupNamesLoop c gs [], groupSearchTrace lib c tr user @ [Close (length tr)])"
  by (simp add: groups_def do_opens groupsClosure_def groupSearchTrace_def Let_def)

text \<open>
  C4. When the session of \<^verbatim>\<open>groups\<close> opens and its search returns the entries \<open>gs\<close>: if
  some entry resolves the configured group name attribute to empty, \<^verbatim>\<open>groups\<close> returns no
  list (the empty one) and a non-nil error naming such an entry; if \<open>gs\<close> is empty it
  returns the empty list and a nil error; and if every entry has a name it returns
  exactly the name-attribute values of the entries, in the order of \<open>gs\<close>.
\<close>

theorem groups_names_or_error:
  "sessionOpens c srv tr \<and> search_result srv (groupSearchTrace lib c tr user) = Inr gs \<longrightarrow>
     ((\<exists>g\<in>set gs. getAttr g (gs_NameAttr (GroupSearch (cfg c))) = []) \<longrightarrow>
        fst (fst (groups lib c srv tr user)) = [] \<and>
        (\<exists>g\<in>set gs. getAttr g (gs_NameAttr (GroupSearch (cfg c))) = [] \<and>
           snd (fst (groups lib c srv tr user))
             = Some (GroupMissingAttribute (DN g) (gs_NameAttr (GroupSearch (cfg c))))))
     \<and> (gs = [] \<longrightarrow> fst (groups lib c srv tr user) = ([], None))
     \<and> ((\<forall>g\<in>set gs. getAttr g (gs_NameAttr (GroupSearch (cfg c))) \<noteq> []) \<longrightarrow>
          fst (groups lib c srv tr user)
            = (map (\<lambda>g. getAttr g (gs_NameAttr (GroupSearch (cfg c)))) gs, None))"
proof (intro impI conjI; (elim conjE)?)
  assume o: "sessionOpens c srv tr"
    and s: "search_result srv (groupSearchTrace lib c tr user) = Inr gs"
  note g = groups_opens [OF o s]
  {
    assume "\<exists>g\<in>set gs. getAttr g (gs_NameAttr (GroupSearch (cfg c))) = []"
    from groupNamesLoop_unnamed [OF this, of "[]"] obtain g0 where
      g0: "g0 \<in> set gs" "getAttr g0 (gs_NameAttr (GroupSearch (cfg c))) = []"
        "groupNamesLoop c gs [] =
           ([], Some (GroupMissingAttribute (DN g0) (gs_NameAttr (GroupSearch (cfg c)))))"
      by blast
    with g show "fst (fst (groups lib c srv tr user)) = []" by simp
    from g g0 show "\<exists>g\<in>set gs. getAttr g (gs_NameAttr (GroupSearch (cfg c))) = [] \<and>
           snd (fst (groups lib c srv tr user))
             = Some (GroupMissingAttribute (DN g) (gs_NameAttr (GroupSearch (cfg c))))"
      by auto
  }
  {
    assume "gs = []"
    with g show "fst (groups lib c srv tr user) = ([], None)" by simp
  }
  {
    assume "\<forall>g\<in>set gs. getAttr g (gs_NameAttr (GroupSearch (cfg c))) \<noteq> []"
    from groupNamesLoop_all_named [OF this, of "[]"] g
    show "fst (groups lib c srv tr user)
            = (map (\<lambda>g. getAttr g (gs_NameAttr (GroupSearch (cfg c)))) gs, None)"
      by simp
  }
qed

lemma ex_groupFilter:
  "groupFilter exLibrary exConnector exJane = ''(member=uid=jane,ou=people)''"
  "groupFilter exLibrary exConnector exAnn = ''(member=uid=ann,ou=people)''"
  "groupFilter exLibrary exConnector exLiteralDN = ''(member=literal)''"
proof -
  have "getAttr exLiteralDN ''DN'' = ''literal''"
    by (simp add: getAttr_def exLiteralDN_def)
  then show "groupFilter exLibrary exConnector exLiteralDN = ''(member=literal)''"
    by (simp add: groupFilter_def exLibrary_def exConnector_attrs mustEscape_def)
qed (simp_all add: groupFilter_def exLibrary_def exConnector_attrs getAttr_examples
       mustEscape_def)

lemma ex_group_search:
  "search_result exDirectory (groupSearchTrace exLibrary exConnector tr exJane)
     = Inr [exGroupA, exGroupB]"
  "search_result exDirectory (groupSearchTrace exLibrary exConnector tr exAnn)
     = Inr [exGroupA, exGroupNoName]"
  "search_result exDirectory (groupSearchTrace exLibrary exConnector tr exLiteralDN) = Inr []"
  by (simp_all add: groupSearchTrace_def exDirectory_def groupSearchRequest_def ex_groupFilter
        exConnector_attrs)

theorem groups_names_or_error_witness:
  "fst (groups exLibrary exConnector exDirectory [] exJane) = ([''admins'', ''staff''], None)
   \<and> fst (groups exLibrary exConnector exDirectory [] exLiteralDN) = ([], None)
   \<and> fst (fst (groups exLibrary exConnector exDirectory [] exAnn)) = []
   \<and> snd (fst (groups exLibrary exConnector exDirectory [] exAnn))
       = Some (GroupMissingAttribute ''cn=c,ou=groups'' ''cn'')"
proof -
  note ex = ex_sessionOpens ex_group_search exConnector_attrs getAttr_examples
  have jane: "fst (groups exLibrary exConnector exDirectory [] exJane)
                = ([''admins'', ''staff''], None)"
    using groups_names_or_error
      [of exConnector exDirectory "[]" exLibrary exJane "[exGroupA, exGroupB]"]
    by (simp add: ex)
  have nogroup: "fst (groups exLibrary exConnector exDirectory [] exLiteralDN) = ([], None)"
    using groups_names_or_error [of exConnector exDirectory "[]" exLibrary exLiteralDN "[]"]
    by (simp add: ex)
  have ann: "fst (fst (groups exLibrary exConnector exDirectory [] exAnn)) = [] \<and>
     snd (fst (groups exLibrary exConnector exDirectory [] exAnn))
       = Some (GroupMissingAttribute ''cn=c,ou=groups'' ''cn'')"
    using groups_names_or_error
      [of exConnector exDirectory "[]" exLibrary exAnn "[exGroupA, exGroupNoName]"]
    by (simp add: ex) (simp add: exGroupNoName_def)
  from jane nogroup ann show ?thesis by simp
qed

end
